theory Spec2Isabelle
  imports Main "HOL-Library.Sublist" "HOL-Library.Monad_Syntax"
begin

section \<open>Strings\<close>

text \<open>
  A Python \<^verbatim>\<open>str\<close> is modelled by its UTF-8 encoding, a \<^typ>\<open>string\<close>.  The
  encoding is injective and self-synchronising, so equality and the substring test of
  the source agree with equality and \<open>str_in\<close> on the encodings.  The accented letters
  of the source's literals are named here by their byte sequences.
\<close>

abbreviation e_acute :: string where "e_acute \<equiv> [CHR 0xC3, CHR 0xA9]"
abbreviation e_grave :: string where "e_grave \<equiv> [CHR 0xC3, CHR 0xA8]"
abbreviation e_circ :: string where "e_circ \<equiv> [CHR 0xC3, CHR 0xAA]"
abbreviation E_acute :: string where "E_acute \<equiv> [CHR 0xC3, CHR 0x89]"
abbreviation a_grave :: string where "a_grave \<equiv> [CHR 0xC3, CHR 0xA0]"
abbreviation A_grave :: string where "A_grave \<equiv> [CHR 0xC3, CHR 0x80]"
abbreviation o_circ :: string where "o_circ \<equiv> [CHR 0xC3, CHR 0xB4]"
abbreviation u_circ :: string where "u_circ \<equiv> [CHR 0xC3, CHR 0xBB]"
abbreviation i_circ :: string where "i_circ \<equiv> [CHR 0xC3, CHR 0xAE]"
abbreviation le_sign :: string where "le_sign \<equiv> [CHR 0xE2, CHR 0x89, CHR 0xA4]"

text \<open>\<open>str_in s t\<close> is Python's \<^verbatim>\<open>s in t\<close> on strings: \<open>s\<close> occurs in \<open>t\<close> as a
  contiguous block.\<close>

fun str_in :: "string \<Rightarrow> string \<Rightarrow> bool" where
  "str_in s [] = (s = [])"
| "str_in s (c # cs) = (prefix s (c # cs) \<or> str_in s cs)"

section \<open>Catalogues and constants\<close>

definition SECTEURS :: "string list" where
  "SECTEURS = [''BTP'', ''Commerce'', ''Services'', ''Industrie'', ''Agricole'',
     (''Professions lib'' @ e_acute @ ''rales''), ''E-commerce'', (''Sant'' @ e_acute), ''Tech/SaaS'', ''Autre'']"

definition DIGITAL :: "string list" where
  "DIGITAL = [''Pas informatique'', ''Informatique rudimentaire'', (''Informatique avanc'' @ e_acute @ ''e'')]"

definition TAILLE :: "string list" where
  "TAILLE = [(''0 salari'' @ e_acute), ''1-10'', ''11-49'', ''50-249'', ''250+'']"

definition IMPACT_ENV :: "string list" where
  "IMPACT_ENV = [''Faible/Non'', ''Moyenne'', ''Importante'']"

definition HORIZON_RETRAITE :: "string list" where
  "HORIZON_RETRAITE = [''Loin (> 5 ans)'', (A_grave @ '' 5 ans''), ''< 2 ans'']"

definition EXPO_INTERNATIONAL :: "string list" where
  "EXPO_INTERNATIONAL = [''Aucune'', ''Occasionnelle'', (''R'' @ e_acute @ ''guli'' @ e_grave @ ''re/Structur'' @ e_acute @ ''e'')]"

definition DEPENDANCE_CLIENT :: "string list" where
  "DEPENDANCE_CLIENT = [''Faible (<20%)'', ''Moyenne (20-40%)'', ''Forte (>40%)'']"

text \<open>The two vocabularies that the source only spells out at the form (the
  \<^verbatim>\<open>croissance\<close> and \<^verbatim>\<open>marge\<close> select boxes).\<close>

definition CROISSANCE :: "string list" where
  "CROISSANCE = [''En baisse'', ''Stable'', ''En croissance'']"

definition MARGE :: "string list" where
  "MARGE = [''Faible'', ''Correcte'', ''Confortable'']"

text \<open>A Python dict literal is the association list of its items in source order;
  \<^verbatim>\<open>SERVICES[k]\<close> is \<open>map_of SERVICES k\<close>, and \<^verbatim>\<open>SERVICES.values()\<close> is
  \<open>map snd SERVICES\<close>.\<close>

definition SERVICES :: "(string \<times> string) list" where
  "SERVICES =
    [(''social'', ''Service Paie & RH''),
     (''fiscal'', (''P'' @ o_circ @ ''le Fiscal'')),
     (''patrimonial'', (''P'' @ o_circ @ ''le Conseil Patrimonial'')),
     (''rse'', (''P'' @ o_circ @ ''le RSE / CSRD'')),
     (''eco_strat'', (''P'' @ o_circ @ ''le Conseil '' @ E_acute @ ''co & Strat'' @ e_acute @ ''gie'')),
     (''gestion'', (''P'' @ o_circ @ ''le Gestion / Contr'' @ o_circ @ ''le de gestion'')),
     (''digital'', (''P'' @ o_circ @ ''le Digitalisation'')),
     (''international'', (''P'' @ o_circ @ ''le International'')),
     (''btp'', (''P'' @ o_circ @ ''le Secteur BTP''))]"

definition PRIORITES :: "string list" where
  "PRIORITES = [''Haute'', ''Moyenne'', ''Basse'']"

definition ECHEANCES :: "string list" where
  "ECHEANCES = [(''Imm'' @ e_acute @ ''diat ('' @ le_sign @ '' 3 mois)''), ''6-12 mois'', ''> 12 mois'']"

section \<open>Data models\<close>

record ClientProfile =
  nom :: string
  secteur :: string
  taille :: string
  digital :: string
  impact_env :: string
  rse_sensible :: bool
  presence_cadres :: bool
  exposition_internationale :: string
  dependance_client :: string
  croissance :: string
  marge :: string
  tresorerie_tendue :: bool
  reporting_mensuel :: bool
  nb_banques :: int
  proche_retraite :: string
  succession_envisagee :: bool
  patrimoine_dirigeant_important :: bool
  btp_specifique :: bool
  ecommerce_plateformes :: bool
  risques_juridiques :: bool
  "notes" :: string

record Need =
  besoin :: string
  service :: string
  priorite :: string
  echeance :: string
  impact :: int
  justification :: string

text \<open>
  An observation is the dict \<^verbatim>\<open>{"type": ..., "texte": ...}\<close>, and a SWOT the dict of the
  four lists of observations.  Both are maps from keys, so that a read of a key that
  is absent (\<^verbatim>\<open>x["texte"]\<close>, \<^verbatim>\<open>SERVICES[service_key]\<close>) is a \<^verbatim>\<open>KeyError\<close>: the
  functions that can raise return an \<^typ>\<open>'a option\<close>, and \<open>None\<close> is that exception
  (no other exception can arise in the two functions).
\<close>

type_synonym observation = "string \<rightharpoonup> string"
type_synonym swot = "string \<rightharpoonup> observation list"

section \<open>Helpers\<close>

definition strength :: "string \<Rightarrow> observation" where
  "strength txt = [''type'' \<mapsto> ''Force'', ''texte'' \<mapsto> txt]"

definition weakness :: "string \<Rightarrow> observation" where
  "weakness txt = [''type'' \<mapsto> ''Faiblesse'', ''texte'' \<mapsto> txt]"

definition opportunity :: "string \<Rightarrow> observation" where
  "opportunity txt = [''type'' \<mapsto> (''Opportunit'' @ e_acute), ''texte'' \<mapsto> txt]"

definition threat :: "string \<Rightarrow> observation" where
  "threat txt = [''type'' \<mapsto> ''Menace'', ''texte'' \<mapsto> txt]"

text \<open>\<^verbatim>\<open>d.get(k, default)\<close>.\<close>

definition dict_get :: "('k \<rightharpoonup> 'v) \<Rightarrow> 'k \<Rightarrow> 'v \<Rightarrow> 'v" where
  "dict_get d k dflt = (case d k of None \<Rightarrow> dflt | Some v \<Rightarrow> v)"

section \<open>The classifier\<close>

text \<open>
  \<^verbatim>\<open>swot_from_profile\<close>: four lists, each extended by the rules of its block in source
  order.  The source's list \<^verbatim>\<open>O\<close> is \<open>Opp\<close> here (\<open>O\<close> is relation composition in HOL).
  No operation of the function can raise.
\<close>

definition swot_from_profile :: "ClientProfile \<Rightarrow> swot" where
  "swot_from_profile p =
    (let F = []; fbl = []; Opp = []; M = [];
         F = (if digital p = (''Informatique avanc'' @ e_acute @ ''e'')
              then F @ [strength (''Digitalisation avanc'' @ e_acute @ ''e (int'' @ e_acute @ ''grations possibles)'')] else F);
         F = (if reporting_mensuel p
              then F @ [strength (''Reporting financier mensuel d'' @ e_acute @ ''j'' @ a_grave @ '' en place'')] else F);
         F = (if marge p = ''Confortable''
              then F @ [strength ''Marge confortable''] else F);
         F = (if croissance p = ''En croissance''
              then F @ [strength ''Croissance du CA''] else F);
         fbl = (if digital p = ''Pas informatique''
              then fbl @ [weakness (''Maturit'' @ e_acute @ '' digitale faible (risque d'erreurs/co'' @ u_circ @ ''ts)'')] else fbl);
         fbl = (if \<not> reporting_mensuel p
              then fbl @ [weakness (''Absence de reporting/indicateurs r'' @ e_acute @ ''guliers'')] else fbl);
         fbl = (if marge p = ''Faible''
              then fbl @ [weakness (''Marge insuffisante / prix de revient non ma'' @ i_circ @ ''tris'' @ e_acute)] else fbl);
         fbl = (if tresorerie_tendue p
              then fbl @ [weakness (''Tr'' @ e_acute @ ''sorerie tendue / pas de pr'' @ e_acute @ ''visionnel'')] else fbl);
         Opp = (if proche_retraite p \<in> set [(A_grave @ '' 5 ans''), ''< 2 ans'']
              then Opp @ [opportunity (''Pr'' @ e_acute @ ''parer la transmission / retraite dirigeant'')] else Opp);
         Opp = (if patrimoine_dirigeant_important p
              then Opp @ [opportunity ''Optimisation patrimoniale (holding/SCI/PEA-PME, etc.)''] else Opp);
         Opp = (if rse_sensible p
              then Opp @ [opportunity (''Valorisation via la d'' @ e_acute @ ''marche RSE / CSRD adapt'' @ e_acute @ ''e'')] else Opp);
         Opp = (if exposition_internationale p \<in> set [''Occasionnelle'', (''R'' @ e_acute @ ''guli'' @ e_grave @ ''re/Structur'' @ e_acute @ ''e'')]
              then Opp @ [opportunity (''D'' @ e_acute @ ''veloppement export / structuration internationale'')] else Opp);
         M = (if impact_env p = ''Importante''
              then M @ [threat (''Exposition r'' @ e_acute @ ''glementaire environnementale '' @ e_acute @ ''lev'' @ e_acute @ ''e'')] else M);
         M = (if dependance_client p = ''Forte (>40%)''
              then M @ [threat (''D'' @ e_acute @ ''pendance '' @ a_grave @ '' un client majeur'')] else M);
         M = (if risques_juridiques p
              then M @ [threat (''Litiges / risques juridiques non trait'' @ e_acute @ ''s'')] else M);
         M = (if taille p \<in> set [''11-49'', ''50-249'', ''250+''] \<and> \<not> presence_cadres p
              then M @ [threat (''Obligations sociales renforc'' @ e_acute @ ''es sans structuration RH'')] else M);
         M = (if secteur p = ''BTP'' \<or> btp_specifique p
              then M @ [threat (''Complexit'' @ e_acute @ '' BTP (retenues, situations, DGD)'')] else M);
         M = (if ecommerce_plateformes p
              then M @ [threat ''TVA plateformes / marketplace (OSS/IOSS)''] else M)
     in [''Forces'' \<mapsto> F, ''Faiblesses'' \<mapsto> fbl, (''Opportunit'' @ e_acute @ ''s'') \<mapsto> Opp, ''Menaces'' \<mapsto> M])"

section \<open>The need deriver\<close>

text \<open>The closure \<^verbatim>\<open>add\<close> of \<^verbatim>\<open>detect_needs\<close>: it appends to the list \<^verbatim>\<open>needs\<close> of the
  enclosing call, here passed in and returned; the read \<^verbatim>\<open>SERVICES[service_key]\<close> raises on a
  key that is absent.\<close>

definition add :: "Need list \<Rightarrow> string \<Rightarrow> string \<Rightarrow> string \<Rightarrow> string \<Rightarrow> int \<Rightarrow> string
    \<Rightarrow> Need list option" where
  "add needs besoin' service_key priorite' echeance' impact' justif =
    (case map_of SERVICES service_key of
       None \<Rightarrow> None
     | Some label \<Rightarrow>
         Some (needs @ [\<lparr>besoin = besoin', service = label, priorite = priorite',
                         echeance = echeance', impact = impact', justification = justif\<rparr>]))"

text \<open>\<^verbatim>\<open>[x["texte"] for x in xs]\<close>.\<close>

definition textes :: "observation list \<Rightarrow> string list option" where
  "textes xs = those (map (\<lambda>x. x ''texte'') xs)"

text \<open>\<^verbatim>\<open>any(s in x["texte"] for x in xs)\<close>: the generator stops at the first hit.\<close>

fun any_in_texte :: "string \<Rightarrow> observation list \<Rightarrow> bool option" where
  "any_in_texte s [] = Some False"
| "any_in_texte s (x # xs) =
    (case x ''texte'' of
       None \<Rightarrow> None
     | Some t \<Rightarrow> if str_in s t then Some True else any_in_texte s xs)"

text \<open>The rules of \<^verbatim>\<open>detect_needs\<close> (source lines 177 to 238): the list \<^verbatim>\<open>needs\<close> as it
  stands before the deduplication.\<close>

definition detect_needs_rules :: "ClientProfile \<Rightarrow> swot \<Rightarrow> Need list option" where
  "detect_needs_rules p swot = do {
     fb_texts \<leftarrow> textes (dict_get swot ''Faiblesses'' []);
     m_texts \<leftarrow> textes (dict_get swot ''Menaces'' []);
     needs \<leftarrow> Some [];
     needs \<leftarrow> (if (''Maturit'' @ e_acute @ '' digitale faible (risque d'erreurs/co'' @ u_circ @ ''ts)'') \<in> set fb_texts
       then add needs ''Cartographie & plan de digitalisation'' ''digital'' ''Moyenne''
              ''6-12 mois'' 3 (''Digitalisation faible d'' @ e_acute @ ''tect'' @ e_acute @ ''e'')
       else Some needs);
     needs \<leftarrow> (if (''Absence de reporting/indicateurs r'' @ e_acute @ ''guliers'') \<in> set fb_texts
       then add needs ''Mise en place de tableaux de bord mensuels'' ''gestion'' ''Haute''
              (''Imm'' @ e_acute @ ''diat ('' @ le_sign @ '' 3 mois)'') 4 ''Absence de pilotage mensuel''
       else Some needs);
     needs \<leftarrow> (if (''Marge insuffisante / prix de revient non ma'' @ i_circ @ ''tris'' @ e_acute) \<in> set fb_texts
       then add needs (E_acute @ ''tude prix de revient & politique de pricing'') ''eco_strat'' ''Haute''
              (''Imm'' @ e_acute @ ''diat ('' @ le_sign @ '' 3 mois)'') 5 ''Marge insuffisante''
       else Some needs);
     needs \<leftarrow> (if (''Tr'' @ e_acute @ ''sorerie tendue / pas de pr'' @ e_acute @ ''visionnel'') \<in> set fb_texts
       then add needs (''Pr'' @ e_acute @ ''visionnel & cash management'') ''gestion'' ''Haute''
              (''Imm'' @ e_acute @ ''diat ('' @ le_sign @ '' 3 mois)'') 5 (''Tension de tr'' @ e_acute @ ''sorerie'')
       else Some needs);
     needs \<leftarrow> (if (''Exposition r'' @ e_acute @ ''glementaire environnementale '' @ e_acute @ ''lev'' @ e_acute @ ''e'') \<in> set m_texts
                    \<or> rse_sensible p
       then add needs ''Diagnostic RSE & plan d'actions'' ''rse'' ''Moyenne''
              ''6-12 mois'' 3 ''Enjeux RSE / environnementaux''
       else Some needs);
     needs \<leftarrow> (if (''D'' @ e_acute @ ''pendance '' @ a_grave @ '' un client majeur'') \<in> set m_texts
       then add needs ''Plan de diversification commerciale'' ''eco_strat'' ''Moyenne''
              ''6-12 mois'' 4 (''Risque de d'' @ e_acute @ ''pendance client'')
       else Some needs);
     needs \<leftarrow> (if (''Complexit'' @ e_acute @ '' BTP (retenues, situations, DGD)'') \<in> set m_texts
       then add needs ''Mise en place suivi chantiers / DGD'' ''btp'' ''Moyenne''
              ''6-12 mois'' 3 (''Sp'' @ e_acute @ ''cificit'' @ e_acute @ ''s BTP'')
       else Some needs);
     needs \<leftarrow> (if ''TVA plateformes / marketplace (OSS/IOSS)'' \<in> set m_texts
       then add needs (''Revue TVA (OSS/IOSS) & proc'' @ e_acute @ ''dures'') ''international'' ''Haute''
              (''Imm'' @ e_acute @ ''diat ('' @ le_sign @ '' 3 mois)'') 4 ''Risque TVA marketplaces''
       else Some needs);
     b \<leftarrow> any_in_texte (''Pr'' @ e_acute @ ''parer la transmission / retraite dirigeant'')
            (dict_get swot (''Opportunit'' @ e_acute @ ''s'') []);
     needs \<leftarrow> (if b
       then add needs (''Bilan retraite & pr'' @ e_acute @ ''-'' @ e_acute @ ''tude de transmission'') ''patrimonial'' ''Moyenne''
              ''6-12 mois'' 3 (''Fen'' @ e_circ @ ''tre d'opportunit'' @ e_acute @ '' transmission'')
       else Some needs);
     b \<leftarrow> any_in_texte ''Optimisation patrimoniale'' (dict_get swot (''Opportunit'' @ e_acute @ ''s'') []);
     needs \<leftarrow> (if b
       then add needs ''Bilan patrimonial dirigeant'' ''patrimonial'' ''Moyenne''
              ''6-12 mois'' 3 ''Patrimoine dirigeant important''
       else Some needs);
     b \<leftarrow> any_in_texte (''D'' @ e_acute @ ''veloppement export'') (dict_get swot (''Opportunit'' @ e_acute @ ''s'') []);
     needs \<leftarrow> (if b
       then add needs ''Diagnostic international (TVA / flux / implantations)'' ''international''
              ''Moyenne'' ''6-12 mois'' 3 (''Opportunit'' @ e_acute @ '' export'')
       else Some needs);
     b \<leftarrow> any_in_texte (''Valorisation via la d'' @ e_acute @ ''marche RSE'') (dict_get swot (''Opportunit'' @ e_acute @ ''s'') []);
     needs \<leftarrow> (if b
       then add needs (''Reporting extra-financier simplifi'' @ e_acute) ''rse'' ''Basse''
              ''> 12 mois'' 2 (''Cr'' @ e_acute @ ''er de la valeur via RSE'')
       else Some needs);
     needs \<leftarrow> (if taille p \<in> set [''11-49'', ''50-249'', ''250+'']
       then (if \<not> presence_cadres p
             then add needs (''Audit social & mise en conformit'' @ e_acute @ '' (CSE, DUERP...)'') ''social''
                    ''Haute'' (''Imm'' @ e_acute @ ''diat ('' @ le_sign @ '' 3 mois)'') 4 (''Obligations sociales renforc'' @ e_acute @ ''es'')
             else add needs ''Optimisation processus paie/RH'' ''social'' ''Moyenne''
                    ''6-12 mois'' 3 ''Effectif significatif'')
       else Some needs);
     needs \<leftarrow> (if ecommerce_plateformes p
                    \<or> exposition_internationale p \<in> set [''Occasionnelle'', (''R'' @ e_acute @ ''guli'' @ e_grave @ ''re/Structur'' @ e_acute @ ''e'')]
       then add needs (''Revue fiscale cibl'' @ e_acute @ ''e (TVA, prix de transfert simplifi'' @ e_acute @ ''s)'') ''fiscal''
              ''Moyenne'' ''6-12 mois'' 3 ''Flux e-commerce/internationaux''
       else Some needs);
     needs \<leftarrow> (if (nb_banques p > 1 \<and> \<not> reporting_mensuel p) \<or> tresorerie_tendue p
       then add needs ''Centralisation banques & rapprochements automatiques'' ''digital''
              ''Moyenne'' ''6-12 mois'' 3 (''Multiples banques sans process outill'' @ e_acute)
       else Some needs);
     needs \<leftarrow> (if croissance p \<in> set [''En baisse'', ''Stable''] \<and> marge p \<noteq> ''Confortable''
       then add needs (''Diagnostic strat'' @ e_acute @ ''gique (march'' @ e_acute @ ''/offre/organisation)'') ''eco_strat''
              ''Moyenne'' ''6-12 mois'' 4 ''Performance perfectible''
       else Some needs);
     Some needs
   }"

text \<open>The deduplication loop (source lines 241 to 247), with its two variables
  \<^verbatim>\<open>unique\<close> and \<^verbatim>\<open>seen\<close> as the state.\<close>

fun deduplicate :: "Need list \<Rightarrow> Need list \<Rightarrow> (string \<times> string) set \<Rightarrow> Need list" where
  "deduplicate [] unique seen = unique"
| "deduplicate (n # needs) unique seen =
    (let key = (besoin n, service n)
     in if key \<notin> seen then deduplicate needs (unique @ [n]) (insert key seen)
        else deduplicate needs unique seen)"

definition detect_needs :: "ClientProfile \<Rightarrow> swot \<Rightarrow> Need list option" where
  "detect_needs p swot = do {
     needs \<leftarrow> detect_needs_rules p swot;
     Some (deduplicate needs [] {})
   }"

section \<open>The form's defaults and the two scenarios\<close>

text \<open>The profile that the form builds when nothing is touched (source lines 302 to
  322): the neutral value of every field.\<close>

definition default_profile :: ClientProfile where
  "default_profile =
    \<lparr>nom = ''Client DEMO'', secteur = ''Services'', taille = ''1-10'',
     digital = ''Informatique rudimentaire'', impact_env = ''Faible/Non'',
     rse_sensible = False, presence_cadres = False,
     exposition_internationale = ''Aucune'', dependance_client = ''Faible (<20%)'',
     croissance = ''Stable'', marge = ''Correcte'', tresorerie_tendue = False,
     reporting_mensuel = False, nb_banques = 1, proche_retraite = ''Loin (> 5 ans)'',
     succession_envisagee = False, patrimoine_dirigeant_important = False,
     btp_specifique = False, ecommerce_plateformes = False, risques_juridiques = False,
     notes = ''''\<rparr>"

definition scenario1 :: ClientProfile where
  "scenario1 = default_profile
     \<lparr>digital := ''Pas informatique'', reporting_mensuel := False, marge := ''Faible'',
      tresorerie_tendue := True\<rparr>"

definition scenario2 :: ClientProfile where
  "scenario2 = default_profile\<lparr>taille := ''50-249'', presence_cadres := False\<rparr>"

definition reporting_profile :: ClientProfile where
  "reporting_profile = default_profile\<lparr>reporting_mensuel := True\<rparr>"

section \<open>The specification's side\<close>

subsection \<open>Well-formed profiles\<close>

text \<open>Every enumerated field holds a value of its vocabulary, and the number of banks is
  not negative.\<close>

definition well_formed :: "ClientProfile \<Rightarrow> bool" where
  "well_formed p =
    (secteur p \<in> set SECTEURS \<and> taille p \<in> set TAILLE \<and> digital p \<in> set DIGITAL \<and>
     impact_env p \<in> set IMPACT_ENV \<and>
     exposition_internationale p \<in> set EXPO_INTERNATIONAL \<and>
     dependance_client p \<in> set DEPENDANCE_CLIENT \<and> croissance p \<in> set CROISSANCE \<and>
     marge p \<in> set MARGE \<and> proche_retraite p \<in> set HORIZON_RETRAITE \<and>
     0 \<le> nb_banques p)"

text \<open>Two profiles agree on every field that the two functions read: all but the name,
  the free notes and the succession flag.\<close>

definition same_rule_inputs :: "ClientProfile \<Rightarrow> ClientProfile \<Rightarrow> bool" where
  "same_rule_inputs p q =
    (secteur p = secteur q \<and> taille p = taille q \<and> digital p = digital q \<and>
     impact_env p = impact_env q \<and> rse_sensible p = rse_sensible q \<and>
     presence_cadres p = presence_cadres q \<and>
     exposition_internationale p = exposition_internationale q \<and>
     dependance_client p = dependance_client q \<and> croissance p = croissance q \<and>
     marge p = marge q \<and> tresorerie_tendue p = tresorerie_tendue q \<and>
     reporting_mensuel p = reporting_mensuel q \<and> nb_banques p = nb_banques q \<and>
     proche_retraite p = proche_retraite q \<and>
     patrimoine_dirigeant_important p = patrimoine_dirigeant_important q \<and>
     btp_specifique p = btp_specifique q \<and>
     ecommerce_plateformes p = ecommerce_plateformes q \<and>
     risques_juridiques p = risques_juridiques q)"

subsection \<open>The classifier as a rule list\<close>

datatype category = Strength | Weakness | Opportunity | Threat

fun category_key :: "category \<Rightarrow> string" where
  "category_key Strength = ''Forces''"
| "category_key Weakness = ''Faiblesses''"
| "category_key Opportunity = (''Opportunit'' @ e_acute @ ''s'')"
| "category_key Threat = ''Menaces''"

fun category_tag :: "category \<Rightarrow> string" where
  "category_tag Strength = ''Force''"
| "category_tag Weakness = ''Faiblesse''"
| "category_tag Opportunity = (''Opportunit'' @ e_acute)"
| "category_tag Threat = ''Menace''"

definition observation_of :: "category \<Rightarrow> string \<Rightarrow> observation" where
  "observation_of c txt = [''type'' \<mapsto> category_tag c, ''texte'' \<mapsto> txt]"

text \<open>A rule is a predicate on the profile, a category and an observation text.  A rule
  list is run category by category; within a category every rule whose predicate holds
  contributes its observation, once, in the order of the list.\<close>

type_synonym swot_rule = "(ClientProfile \<Rightarrow> bool) \<times> category \<times> string"

definition rule_texts :: "swot_rule list \<Rightarrow> category \<Rightarrow> ClientProfile \<Rightarrow> string list" where
  "rule_texts rules c p =
    map (\<lambda>(holds, c', txt). txt) (filter (\<lambda>(holds, c', txt). c' = c \<and> holds p) rules)"

definition observations :: "swot_rule list \<Rightarrow> category \<Rightarrow> ClientProfile \<Rightarrow> observation list" where
  "observations rules c p = map (observation_of c) (rule_texts rules c p)"

definition classify :: "swot_rule list \<Rightarrow> ClientProfile \<Rightarrow> swot" where
  "classify rules p =
    [category_key Strength \<mapsto> observations rules Strength p,
     category_key Weakness \<mapsto> observations rules Weakness p,
     category_key Opportunity \<mapsto> observations rules Opportunity p,
     category_key Threat \<mapsto> observations rules Threat p]"

text \<open>The rule set of the specification (section 4.1), predicate by predicate, with the
  observation texts that it prints.\<close>

definition spec_rules :: "swot_rule list" where
  "spec_rules =
    [(\<lambda>p. digital p = (''Informatique avanc'' @ e_acute @ ''e''), Strength, (''Digitalisation avanc'' @ e_acute @ ''e'')),
     (\<lambda>p. reporting_mensuel p, Strength, ''Reporting mensuel en place''),
     (\<lambda>p. marge p = ''Confortable'', Strength, ''Marge confortable''),
     (\<lambda>p. croissance p = ''En croissance'', Strength, ''Croissance du CA''),
     (\<lambda>p. digital p = ''Pas informatique'', Weakness, (''Maturit'' @ e_acute @ '' digitale faible'')),
     (\<lambda>p. \<not> reporting_mensuel p, Weakness, ''Absence de reporting''),
     (\<lambda>p. marge p = ''Faible'', Weakness, ''Marge insuffisante''),
     (\<lambda>p. tresorerie_tendue p, Weakness, (''Tr'' @ e_acute @ ''sorerie tendue'')),
     (\<lambda>p. proche_retraite p \<in> {(A_grave @ '' 5 ans''), ''< 2 ans''}, Opportunity,
        (''Pr'' @ e_acute @ ''parer transmission'')),
     (\<lambda>p. patrimoine_dirigeant_important p, Opportunity, ''Optimisation patrimoniale''),
     (\<lambda>p. rse_sensible p, Opportunity, ''Valorisation RSE/CSRD''),
     (\<lambda>p. exposition_internationale p \<in> {''Occasionnelle'', (''R'' @ e_acute @ ''guli'' @ e_grave @ ''re/Structur'' @ e_acute @ ''e'')},
        Opportunity, (''D'' @ e_acute @ ''veloppement export'')),
     (\<lambda>p. impact_env p = ''Importante'', Threat,
        (''Exposition r'' @ e_acute @ ''glementaire environnementale'')),
     (\<lambda>p. dependance_client p = ''Forte (>40%)'', Threat, (''D'' @ e_acute @ ''pendance client majeur'')),
     (\<lambda>p. risques_juridiques p, Threat, ''Litiges/risques juridiques''),
     (\<lambda>p. taille p \<in> {''11-49'', ''50-249'', ''250+''} \<and> \<not> presence_cadres p, Threat,
        (''Obligations sociales renforc'' @ e_acute @ ''es'')),
     (\<lambda>p. secteur p = ''BTP'' \<or> btp_specifique p, Threat, (''Complexit'' @ e_acute @ '' BTP'')),
     (\<lambda>p. ecommerce_plateformes p, Threat, ''TVA plateformes marketplace'')]"

text \<open>The observation texts of the source, rule by rule in the same order, and the
  rule set of the specification with these texts in place of its own.\<close>

definition source_texts :: "string list" where
  "source_texts =
    [(''Digitalisation avanc'' @ e_acute @ ''e (int'' @ e_acute @ ''grations possibles)''),
     (''Reporting financier mensuel d'' @ e_acute @ ''j'' @ a_grave @ '' en place''),
     ''Marge confortable'',
     ''Croissance du CA'',
     (''Maturit'' @ e_acute @ '' digitale faible (risque d'erreurs/co'' @ u_circ @ ''ts)''),
     (''Absence de reporting/indicateurs r'' @ e_acute @ ''guliers''),
     (''Marge insuffisante / prix de revient non ma'' @ i_circ @ ''tris'' @ e_acute),
     (''Tr'' @ e_acute @ ''sorerie tendue / pas de pr'' @ e_acute @ ''visionnel''),
     (''Pr'' @ e_acute @ ''parer la transmission / retraite dirigeant''),
     ''Optimisation patrimoniale (holding/SCI/PEA-PME, etc.)'',
     (''Valorisation via la d'' @ e_acute @ ''marche RSE / CSRD adapt'' @ e_acute @ ''e''),
     (''D'' @ e_acute @ ''veloppement export / structuration internationale''),
     (''Exposition r'' @ e_acute @ ''glementaire environnementale '' @ e_acute @ ''lev'' @ e_acute @ ''e''),
     (''D'' @ e_acute @ ''pendance '' @ a_grave @ '' un client majeur''),
     (''Litiges / risques juridiques non trait'' @ e_acute @ ''s''),
     (''Obligations sociales renforc'' @ e_acute @ ''es sans structuration RH''),
     (''Complexit'' @ e_acute @ '' BTP (retenues, situations, DGD)''),
     ''TVA plateformes / marketplace (OSS/IOSS)'']"

definition source_rules :: "swot_rule list" where
  "source_rules = map (\<lambda>((holds, c, _), txt). (holds, c, txt)) (zip spec_rules source_texts)"

subsection \<open>The need deriver as a rule table\<close>

datatype priority = High | Medium | Low

datatype deadline = Immediate | Within_6_to_12_months | Beyond_12_months

fun priority_label :: "priority \<Rightarrow> string" where
  "priority_label High = ''Haute''"
| "priority_label Medium = ''Moyenne''"
| "priority_label Low = ''Basse''"

fun deadline_label :: "deadline \<Rightarrow> string" where
  "deadline_label Immediate = (''Imm'' @ e_acute @ ''diat ('' @ le_sign @ '' 3 mois)'')"
| "deadline_label Within_6_to_12_months = ''6-12 mois''"
| "deadline_label Beyond_12_months = ''> 12 mois''"

text \<open>An observation text is present in a category of a SWOT.\<close>

definition present :: "swot \<Rightarrow> category \<Rightarrow> string \<Rightarrow> bool" where
  "present sw c txt = list_ex (\<lambda>x. x ''texte'' = Some txt) (dict_get sw (category_key c) [])"

text \<open>A row of the rule table (section 4.2): the condition, the department key, the
  priority, the deadline bucket and the impact, as the table prints them, and the
  description and the rationale of the need, which the table leaves to the source.\<close>

record need_rule =
  applies :: "ClientProfile \<Rightarrow> swot \<Rightarrow> bool"
  dept :: string
  prio :: priority
  due :: deadline
  score :: int
  description :: string
  rationale :: string

definition need_rule_table :: "need_rule list" where
  "need_rule_table =
    [\<lparr>applies = (\<lambda>p sw. present sw Weakness
                   (''Maturit'' @ e_acute @ '' digitale faible (risque d'erreurs/co'' @ u_circ @ ''ts)'')),
      dept = ''digital'', prio = Medium, due = Within_6_to_12_months, score = 3,
      description = ''Cartographie & plan de digitalisation'',
      rationale = (''Digitalisation faible d'' @ e_acute @ ''tect'' @ e_acute @ ''e'')\<rparr>,
     \<lparr>applies = (\<lambda>p sw. present sw Weakness (''Absence de reporting/indicateurs r'' @ e_acute @ ''guliers'')),
      dept = ''gestion'', prio = High, due = Immediate, score = 4,
      description = ''Mise en place de tableaux de bord mensuels'',
      rationale = ''Absence de pilotage mensuel''\<rparr>,
     \<lparr>applies = (\<lambda>p sw. present sw Weakness
                   (''Marge insuffisante / prix de revient non ma'' @ i_circ @ ''tris'' @ e_acute)),
      dept = ''eco_strat'', prio = High, due = Immediate, score = 5,
      description = (E_acute @ ''tude prix de revient & politique de pricing''),
      rationale = ''Marge insuffisante''\<rparr>,
     \<lparr>applies = (\<lambda>p sw. present sw Weakness (''Tr'' @ e_acute @ ''sorerie tendue / pas de pr'' @ e_acute @ ''visionnel'')),
      dept = ''gestion'', prio = High, due = Immediate, score = 5,
      description = (''Pr'' @ e_acute @ ''visionnel & cash management''),
      rationale = (''Tension de tr'' @ e_acute @ ''sorerie'')\<rparr>,
     \<lparr>applies = (\<lambda>p sw. present sw Threat
                   (''Exposition r'' @ e_acute @ ''glementaire environnementale '' @ e_acute @ ''lev'' @ e_acute @ ''e'') \<or> rse_sensible p),
      dept = ''rse'', prio = Medium, due = Within_6_to_12_months, score = 3,
      description = ''Diagnostic RSE & plan d'actions'',
      rationale = ''Enjeux RSE / environnementaux''\<rparr>,
     \<lparr>applies = (\<lambda>p sw. present sw Threat (''D'' @ e_acute @ ''pendance '' @ a_grave @ '' un client majeur'')),
      dept = ''eco_strat'', prio = Medium, due = Within_6_to_12_months, score = 4,
      description = ''Plan de diversification commerciale'',
      rationale = (''Risque de d'' @ e_acute @ ''pendance client'')\<rparr>,
     \<lparr>applies = (\<lambda>p sw. present sw Threat (''Complexit'' @ e_acute @ '' BTP (retenues, situations, DGD)'')),
      dept = ''btp'', prio = Medium, due = Within_6_to_12_months, score = 3,
      description = ''Mise en place suivi chantiers / DGD'',
      rationale = (''Sp'' @ e_acute @ ''cificit'' @ e_acute @ ''s BTP'')\<rparr>,
     \<lparr>applies = (\<lambda>p sw. present sw Threat ''TVA plateformes / marketplace (OSS/IOSS)''),
      dept = ''international'', prio = High, due = Immediate, score = 4,
      description = (''Revue TVA (OSS/IOSS) & proc'' @ e_acute @ ''dures''),
      rationale = ''Risque TVA marketplaces''\<rparr>,
     \<lparr>applies = (\<lambda>p sw. present sw Opportunity
                   (''Pr'' @ e_acute @ ''parer la transmission / retraite dirigeant'')),
      dept = ''patrimonial'', prio = Medium, due = Within_6_to_12_months, score = 3,
      description = (''Bilan retraite & pr'' @ e_acute @ ''-'' @ e_acute @ ''tude de transmission''),
      rationale = (''Fen'' @ e_circ @ ''tre d'opportunit'' @ e_acute @ '' transmission'')\<rparr>,
     \<lparr>applies = (\<lambda>p sw. present sw Opportunity
                   ''Optimisation patrimoniale (holding/SCI/PEA-PME, etc.)''),
      dept = ''patrimonial'', prio = Medium, due = Within_6_to_12_months, score = 3,
      description = ''Bilan patrimonial dirigeant'',
      rationale = ''Patrimoine dirigeant important''\<rparr>,
     \<lparr>applies = (\<lambda>p sw. present sw Opportunity
                   (''D'' @ e_acute @ ''veloppement export / structuration internationale'')),
      dept = ''international'', prio = Medium, due = Within_6_to_12_months, score = 3,
      description = ''Diagnostic international (TVA / flux / implantations)'',
      rationale = (''Opportunit'' @ e_acute @ '' export'')\<rparr>,
     \<lparr>applies = (\<lambda>p sw. present sw Opportunity
                   (''Valorisation via la d'' @ e_acute @ ''marche RSE / CSRD adapt'' @ e_acute @ ''e'')),
      dept = ''rse'', prio = Low, due = Beyond_12_months, score = 2,
      description = (''Reporting extra-financier simplifi'' @ e_acute),
      rationale = (''Cr'' @ e_acute @ ''er de la valeur via RSE'')\<rparr>,
     \<lparr>applies = (\<lambda>p sw. taille p \<in> {''11-49'', ''50-249'', ''250+''} \<and> \<not> presence_cadres p),
      dept = ''social'', prio = High, due = Immediate, score = 4,
      description = (''Audit social & mise en conformit'' @ e_acute @ '' (CSE, DUERP...)''),
      rationale = (''Obligations sociales renforc'' @ e_acute @ ''es'')\<rparr>,
     \<lparr>applies = (\<lambda>p sw. taille p \<in> {''11-49'', ''50-249'', ''250+''} \<and> presence_cadres p),
      dept = ''social'', prio = Medium, due = Within_6_to_12_months, score = 3,
      description = ''Optimisation processus paie/RH'',
      rationale = ''Effectif significatif''\<rparr>,
     \<lparr>applies = (\<lambda>p sw. ecommerce_plateformes p \<or> exposition_internationale p \<noteq> ''Aucune''),
      dept = ''fiscal'', prio = Medium, due = Within_6_to_12_months, score = 3,
      description = (''Revue fiscale cibl'' @ e_acute @ ''e (TVA, prix de transfert simplifi'' @ e_acute @ ''s)''),
      rationale = ''Flux e-commerce/internationaux''\<rparr>,
     \<lparr>applies = (\<lambda>p sw. (nb_banques p > 1 \<and> \<not> reporting_mensuel p) \<or> tresorerie_tendue p),
      dept = ''digital'', prio = Medium, due = Within_6_to_12_months, score = 3,
      description = ''Centralisation banques & rapprochements automatiques'',
      rationale = (''Multiples banques sans process outill'' @ e_acute)\<rparr>,
     \<lparr>applies = (\<lambda>p sw. croissance p \<in> {''En baisse'', ''Stable''} \<and> marge p \<noteq> ''Confortable''),
      dept = ''eco_strat'', prio = Medium, due = Within_6_to_12_months, score = 4,
      description = (''Diagnostic strat'' @ e_acute @ ''gique (march'' @ e_acute @ ''/offre/organisation)''),
      rationale = ''Performance perfectible''\<rparr>]"

text \<open>The same table with the condition of its fifteenth row as the source tests it:
  the international exposure is one of the two levels above the lowest.  On a
  well-formed profile this is the condition of the table.\<close>

definition need_rule_table_src :: "need_rule list" where
  "need_rule_table_src =
    need_rule_table[14 := (need_rule_table ! 14)
      \<lparr>applies := (\<lambda>p sw. ecommerce_plateformes p \<or>
          exposition_internationale p \<in> {''Occasionnelle'', (''R'' @ e_acute @ ''guli'' @ e_grave @ ''re/Structur'' @ e_acute @ ''e'')})\<rparr>]"

text \<open>The need of a row: the department key is resolved to its display name, the
  priority and the deadline to their labels.\<close>

definition need_of :: "need_rule \<Rightarrow> Need option" where
  "need_of r =
    map_option
      (\<lambda>label. \<lparr>besoin = description r, service = label, priorite = priority_label (prio r),
                 echeance = deadline_label (due r), impact = score r,
                 justification = rationale r\<rparr>)
      (map_of SERVICES (dept r))"

text \<open>Running a table: the rows whose condition holds, in the order of the table, each
  giving one need.\<close>

definition derive :: "need_rule list \<Rightarrow> ClientProfile \<Rightarrow> swot \<Rightarrow> Need list option" where
  "derive table p sw = those (map need_of (filter (\<lambda>r. applies r p sw) table))"

subsection \<open>Deduplication\<close>

definition need_key :: "Need \<Rightarrow> string \<times> string" where
  "need_key n = (besoin n, service n)"

text \<open>Keeping the first occurrence of every (description, department) pair, in
  first-seen order.\<close>

fun first_occurrences :: "Need list \<Rightarrow> Need list" where
  "first_occurrences [] = []"
| "first_occurrences (n # ns) =
    n # first_occurrences (filter (\<lambda>m. need_key m \<noteq> need_key n) ns)"

subsection \<open>The schema of a need\<close>

definition valid_need :: "Need \<Rightarrow> bool" where
  "valid_need n =
    (service n \<in> set (map snd SERVICES) \<and> priorite n \<in> set PRIORITES \<and>
     echeance n \<in> set ECHEANCES \<and> 1 \<le> impact n \<and> impact n \<le> 5)"

section \<open>Properties of the deduplication\<close>

lemma deduplicate_acc: "deduplicate xs u s = u @ deduplicate xs [] s"
proof (induction xs arbitrary: u s)
  case Nil
  show ?case by simp
next
  case (Cons n ns)
  have a: "deduplicate ns (u @ [n]) t = u @ [n] @ deduplicate ns [] t" for t
    using Cons.IH [of "u @ [n]" t] by simp
  have b: "deduplicate ns [n] t = [n] @ deduplicate ns [] t" for t
    using Cons.IH [of "[n]" t] by simp
  show ?case
    using a b Cons.IH [of u s] by (simp add: Let_def)
qed

lemma deduplicate_Cons:
  "deduplicate (n # ns) [] s =
    (if need_key n \<in> s then deduplicate ns [] s
     else n # deduplicate ns [] (insert (need_key n) s))"
  using deduplicate_acc [of ns "[n]" "insert (need_key n) s"]
  by (simp add: Let_def need_key_def)

declare deduplicate.simps(2) [simp del]

lemma deduplicate_keys:
  "need_key ` set (deduplicate xs [] s) = need_key ` set xs - s"
  by (induction xs arbitrary: s) (auto simp: deduplicate_Cons)

lemma deduplicate_distinct: "distinct (map need_key (deduplicate xs [] s))"
proof (induction xs arbitrary: s)
  case Nil
  show ?case by simp
next
  case (Cons n ns)
  have "need_key n \<notin> need_key ` set (deduplicate ns [] (insert (need_key n) s))"
    by (simp add: deduplicate_keys)
  then show ?case using Cons.IH by (simp add: deduplicate_Cons)
qed

lemma deduplicate_id:
  "distinct (map need_key xs) \<Longrightarrow> need_key ` set xs \<inter> s = {} \<Longrightarrow> deduplicate xs [] s = xs"
proof (induction xs arbitrary: s)
  case Nil
  show ?case by simp
next
  case (Cons n ns)
  from Cons.prems have k: "need_key n \<notin> s" by auto
  from Cons.prems have i: "need_key ` set ns \<inter> insert (need_key n) s = {}" by auto
  from Cons.prems have d: "distinct (map need_key ns)" by simp
  have "deduplicate ns [] (insert (need_key n) s) = ns" using d i by (rule Cons.IH)
  with k show ?case by (simp add: deduplicate_Cons)
qed

lemma deduplicate_insert_filter:
  "deduplicate xs [] (insert k s) = deduplicate (filter (\<lambda>m. need_key m \<noteq> k) xs) [] s"
proof (induction xs arbitrary: s)
  case Nil
  show ?case by simp
next
  case (Cons n ns)
  show ?case
  proof (cases "need_key n = k")
    case True
    then show ?thesis using Cons.IH [of s] by (simp add: deduplicate_Cons)
  next
    case False
    have "insert (need_key n) (insert k s) = insert k (insert (need_key n) s)" by auto
    with False show ?thesis
      using Cons.IH [of s] Cons.IH [of "insert (need_key n) s"]
      by (simp add: deduplicate_Cons)
  qed
qed

lemma deduplicate_first_occurrences: "deduplicate xs [] {} = first_occurrences xs"
proof (induction xs rule: first_occurrences.induct)
  case 1
  show ?case by simp
next
  case (2 n ns)
  then show ?case by (simp add: deduplicate_Cons deduplicate_insert_filter)
qed

lemma first_occurrences_subseq: "subseq (first_occurrences xs) xs"
proof (induction xs rule: first_occurrences.induct)
  case 1
  show ?case by simp
next
  case (2 n ns)
  have "subseq (filter (\<lambda>m. need_key m \<noteq> need_key n) ns) ns" by simp
  with 2 have "subseq (first_occurrences (filter (\<lambda>m. need_key m \<noteq> need_key n) ns)) ns"
    by (rule subseq_order.trans)
  then show ?case by simp
qed

section \<open>The classifier against its rule list\<close>

lemma if_append: "(if c then xs @ [x] else xs) = xs @ (if c then [x] else [])"
  by simp

lemma filter_Cons_append: "filter P (x # xs) = (if P x then [x] else []) @ filter P xs"
  by simp

lemma map_if_single: "map f (if c then [x] else []) = (if c then [f x] else [])"
  by simp

lemma swot_from_profile_rules: "swot_from_profile p = classify source_rules p"
  unfolding swot_from_profile_def classify_def observations_def rule_texts_def source_rules_def
    spec_rules_def source_texts_def
  by (simp add: Let_def if_append filter_Cons_append map_if_single strength_def weakness_def
      opportunity_def threat_def observation_of_def
      del: filter.simps split del: if_split cong del: if_weak_cong)

lemma textes_observations: "textes (observations rules c p) = Some (rule_texts rules c p)"
proof -
  have "those (map (\<lambda>x. x ''texte'') (map (observation_of c) ts)) = Some ts" for ts
    by (induction ts) (simp_all add: observation_of_def)
  then show ?thesis by (simp add: textes_def observations_def)
qed

lemma any_in_texte_observations:
  "any_in_texte s (observations rules c p) = Some (list_ex (str_in s) (rule_texts rules c p))"
proof -
  have "any_in_texte s (map (observation_of c) ts) = Some (list_ex (str_in s) ts)" for ts
    by (induction ts) (simp_all add: observation_of_def)
  then show ?thesis by (simp add: observations_def)
qed

lemma classify_get:
  "dict_get (classify rules p) (category_key c) [] = observations rules c p"
  by (cases c) (simp_all add: classify_def dict_get_def)

lemma present_classify:
  "present (classify rules p) c txt = (txt \<in> set (rule_texts rules c p))"
  by (auto simp: present_def classify_get observations_def list_ex_iff observation_of_def)

section \<open>The need deriver against its rule table\<close>

lemma list_ex_if_single: "list_ex P (if c then [x] else []) = (c \<and> P x)"
  by (cases c) simp_all

lemma mem_if_single: "(y \<in> set (if c then [x] else [])) = (c \<and> y = x)"
  by (cases c) simp_all

lemma opportunity_texts:
  "list_ex (str_in (''Pr'' @ e_acute @ ''parer la transmission / retraite dirigeant''))
      (rule_texts source_rules Opportunity p) =
    ((''Pr'' @ e_acute @ ''parer la transmission / retraite dirigeant'') \<in> set (rule_texts source_rules Opportunity p))"
  "list_ex (str_in ''Optimisation patrimoniale'') (rule_texts source_rules Opportunity p) =
    (''Optimisation patrimoniale (holding/SCI/PEA-PME, etc.)''
      \<in> set (rule_texts source_rules Opportunity p))"
  "list_ex (str_in (''D'' @ e_acute @ ''veloppement export'')) (rule_texts source_rules Opportunity p) =
    ((''D'' @ e_acute @ ''veloppement export / structuration internationale'')
      \<in> set (rule_texts source_rules Opportunity p))"
  "list_ex (str_in (''Valorisation via la d'' @ e_acute @ ''marche RSE'')) (rule_texts source_rules Opportunity p) =
    ((''Valorisation via la d'' @ e_acute @ ''marche RSE / CSRD adapt'' @ e_acute @ ''e'')
      \<in> set (rule_texts source_rules Opportunity p))"
  unfolding rule_texts_def source_rules_def spec_rules_def source_texts_def
  by (simp_all add: filter_Cons_append map_if_single list_ex_if_single mem_if_single
      del: filter.simps split del: if_split cong del: if_weak_cong)

lemmas classify_gets =
  classify_get [of _ _ Weakness, simplified]
  classify_get [of _ _ Threat, simplified]
  classify_get [of _ _ Opportunity, simplified]

lemma if_Some: "(if c then Some a else Some b) = Some (if c then a else b)"
  by simp

lemma if_append_gen: "(if c then xs @ ys else xs) = xs @ (if c then ys else [])"
  by simp

lemma if_append_both: "(if c then xs @ ys else xs @ zs) = xs @ (if c then ys else zs)"
  by simp

lemma if_nested_split:
  "(if c then (if \<not> h then [a] else [b]) else []) =
    (if c \<and> \<not> h then [a] else []) @ (if c \<and> h then [b] else [])"
  by simp

lemma those_if_append:
  "those ((if c then [Some x] else []) @ xs) = map_option ((@) (if c then [x] else [])) (those xs)"
  by (cases c; cases "those xs") simp_all

lemma those_if_single: "those (if c then [Some x] else []) = Some (if c then [x] else [])"
  by (cases c) simp_all

text \<open>On the classification of a profile, the rules of the source are the rows of the
  table, run in order.\<close>

lemma detect_needs_rules_table:
  "detect_needs_rules p (swot_from_profile p) =
    derive need_rule_table_src p (swot_from_profile p)"
  unfolding swot_from_profile_rules detect_needs_rules_def derive_def need_rule_table_src_def
    need_rule_table_def
  by (simp add: classify_gets textes_observations any_in_texte_observations opportunity_texts [unfolded append.simps]
      present_classify add_def SERVICES_def need_of_def if_Some if_append_gen if_append_both
      if_nested_split those_if_append those_if_single filter_Cons_append map_if_single
      del: filter.simps split del: if_split cong del: if_weak_cong)


section \<open>Properties of the rule table\<close>

lemma need_of_applies_update: "need_of (r\<lparr>applies := f\<rparr>) = need_of r"
  by (simp add: need_of_def)

lemma derive_update:
  "i < length t \<Longrightarrow> f p sw = applies (t ! i) p sw \<Longrightarrow>
    derive (t[i := (t ! i)\<lparr>applies := f\<rparr>]) p sw = derive t p sw"
proof -
  assume i: "i < length t" and f: "f p sw = applies (t ! i) p sw"
  have "map need_of (filter (\<lambda>r. applies r p sw) (t[i := (t ! i)\<lparr>applies := f\<rparr>])) =
        map need_of (filter (\<lambda>r. applies r p sw) t)"
    using i f
  proof (induction t arbitrary: i)
    case Nil
    then show ?case by simp
  next
    case (Cons r rs)
    show ?case
    proof (cases i)
      case 0
      with Cons.prems show ?thesis by (simp add: need_of_applies_update)
    next
      case (Suc j)
      with Cons.prems Cons.IH [of j] show ?thesis by simp
    qed
  qed
  then show ?thesis by (simp add: derive_def)
qed

lemma need_rule_table_length: "length need_rule_table = 17"
  by (simp add: need_rule_table_def)

lemma derive_table_src:
  assumes "well_formed p"
  shows "derive need_rule_table_src p sw = derive need_rule_table p sw"
proof -
  from assms have "exposition_internationale p \<in> set EXPO_INTERNATIONAL"
    by (simp add: well_formed_def)
  then have "(ecommerce_plateformes p \<or>
      exposition_internationale p \<in> {''Occasionnelle'', (''R'' @ e_acute @ ''guli'' @ e_grave @ ''re/Structur'' @ e_acute @ ''e'')}) =
      applies (need_rule_table ! 14) p sw"
    by (auto simp: need_rule_table_def EXPO_INTERNATIONAL_def)
  then show ?thesis
    unfolding need_rule_table_src_def
    by (intro derive_update) (simp_all add: need_rule_table_length)
qed

lemma derive_Some:
  assumes "list_all (\<lambda>r. case need_of r of None \<Rightarrow> False | Some n \<Rightarrow> Q n) t"
  shows "\<exists>g. derive t p sw = Some g \<and> list_all Q g \<and>
    map besoin g = map description (filter (\<lambda>r. applies r p sw) t)"
proof -
  have "\<exists>g. those (map need_of rs) = Some g \<and> list_all Q g \<and> map besoin g = map description rs"
    if "list_all (\<lambda>r. case need_of r of None \<Rightarrow> False | Some n \<Rightarrow> Q n) rs" for rs
    using that
  proof (induction rs)
    case Nil
    show ?case by simp
  next
    case (Cons r rs)
    from Cons.prems obtain n where n: "need_of r = Some n" "Q n"
      by (auto split: option.splits)
    from Cons.prems Cons.IH obtain g where
      g: "those (map need_of rs) = Some g" "list_all Q g" "map besoin g = map description rs"
      by auto
    from n(1) have "besoin n = description r"
      by (auto simp: need_of_def)
    with n g show ?case by simp
  qed
  moreover have "list_all (\<lambda>r. case need_of r of None \<Rightarrow> False | Some n \<Rightarrow> Q n)
      (filter (\<lambda>r. applies r p sw) t)"
    using assms by (auto simp: list_all_iff)
  ultimately show ?thesis by (simp add: derive_def)
qed

lemma need_rule_table_src_valid:
  "list_all (\<lambda>r. case need_of r of None \<Rightarrow> False | Some n \<Rightarrow> valid_need n) need_rule_table_src"
  by (simp add: need_rule_table_src_def need_rule_table_def need_of_def valid_need_def
      SERVICES_def PRIORITES_def ECHEANCES_def)

lemma need_rule_table_valid:
  "list_all (\<lambda>r. case need_of r of None \<Rightarrow> False | Some n \<Rightarrow> valid_need n) need_rule_table"
  by (simp add: need_rule_table_def need_of_def valid_need_def
      SERVICES_def PRIORITES_def ECHEANCES_def)

lemma need_rule_table_distinct: "distinct (map description need_rule_table)"
  by (simp add: need_rule_table_def)

lemma need_rule_table_src_distinct: "distinct (map description need_rule_table_src)"
  by (simp add: need_rule_table_src_def need_rule_table_def)

lemma need_rule_table_keys:
  "list_all (\<lambda>r. dept r \<in> set (map fst SERVICES)) need_rule_table"
  by (simp add: need_rule_table_def SERVICES_def)

lemma distinct_besoin_need_key: "distinct (map besoin g) \<Longrightarrow> distinct (map need_key g)"
proof -
  assume "distinct (map besoin g)"
  then have "distinct (map (fst \<circ> need_key) g)"
    by (simp add: need_key_def comp_def)
  then have "distinct (map fst (map need_key g))" by simp
  then show ?thesis using distinct_map [of fst "map need_key g"] by blast
qed

lemma detect_needs_rules_Some:
  "\<exists>g. detect_needs_rules p (swot_from_profile p) = Some g \<and> list_all valid_need g \<and>
    distinct (map need_key g)"
proof -
  let ?S = "swot_from_profile p"
  obtain g where g: "derive need_rule_table_src p ?S = Some g" "list_all valid_need g"
    "map besoin g = map description (filter (\<lambda>r. applies r p ?S) need_rule_table_src)"
    using derive_Some [OF need_rule_table_src_valid] by blast
  have "distinct (map besoin g)"
    using need_rule_table_src_distinct by (simp add: g(3) distinct_map_filter)
  then have "distinct (map need_key g)" by (rule distinct_besoin_need_key)
  with g show ?thesis by (simp add: detect_needs_rules_table)
qed

lemma detect_needs_eq_rules:
  "detect_needs_rules p (swot_from_profile p) = Some g \<Longrightarrow>
    detect_needs p (swot_from_profile p) = Some g"
proof -
  assume g: "detect_needs_rules p (swot_from_profile p) = Some g"
  from detect_needs_rules_Some [of p] g have "distinct (map need_key g)" by auto
  then have "deduplicate g [] {} = g" by (rule deduplicate_id) simp
  with g show ?thesis by (simp add: detect_needs_def)
qed


section \<open>The claims\<close>

text \<open>
  Claim C1, as amended.  For every profile the classifier runs the rule list of section
  4.1: the same predicates, in the same categories and in the same order (Strengths,
  Weaknesses, Opportunities, Threats, and the declared order within each); every rule
  whose predicate holds contributes one observation to the sequence of its category,
  whatever the other rules do.  The text of that observation is the one of the source
  (\<open>source_texts\<close>), of which the text printed in the specification is a shortened
  form: only for the two rules "Marge confortable" and "Croissance du CA" are they the
  same.
\<close>

theorem swot_from_profile_source_rules:
  "swot_from_profile p = classify source_rules p \<and>
   map (\<lambda>(holds, c, txt). (holds, c)) source_rules =
   map (\<lambda>(holds, c, txt). (holds, c)) spec_rules"
proof
  show "swot_from_profile p = classify source_rules p"
    by (rule swot_from_profile_rules)
  show "map (\<lambda>(holds, c, txt). (holds, c)) source_rules =
    map (\<lambda>(holds, c, txt). (holds, c)) spec_rules"
    by (simp add: source_rules_def spec_rules_def source_texts_def)
qed

theorem swot_from_profile_source_rules_witness:
  "dict_get (classify source_rules reporting_profile) ''Forces'' [] =
    [strength (''Reporting financier mensuel d'' @ e_acute @ ''j'' @ a_grave @ '' en place'')]"
proof -
  have "swot_from_profile reporting_profile = classify source_rules reporting_profile"
    using swot_from_profile_source_rules [of reporting_profile] by simp
  moreover have "dict_get (swot_from_profile reporting_profile) ''Forces'' [] =
    [strength (''Reporting financier mensuel d'' @ e_acute @ ''j'' @ a_grave @ '' en place'')]"
    by (simp add: swot_from_profile_def Let_def reporting_profile_def default_profile_def
        dict_get_def)
  ultimately show ?thesis by simp
qed

text \<open>
  Claim C1 as stated fails on the texts.  For the default profile with monthly reporting
  switched on, the source records the strength with the text "Reporting financier
  mensuel deja en place" (with its accents), where the rule set of the specification
  prints "Reporting mensuel en place".
\<close>

theorem swot_from_profile_spec_texts_counterexample:
  "swot_from_profile reporting_profile \<noteq> classify spec_rules reporting_profile"
proof
  assume e: "swot_from_profile reporting_profile = classify spec_rules reporting_profile"
  have a: "map (\<lambda>x. x ''texte'') (dict_get (swot_from_profile reporting_profile) ''Forces'' []) =
    [Some (''Reporting financier mensuel d'' @ e_acute @ ''j'' @ a_grave @ '' en place'')]"
    by (simp add: swot_from_profile_def Let_def reporting_profile_def default_profile_def
        dict_get_def strength_def)
  have b: "map (\<lambda>x. x ''texte'') (dict_get (classify spec_rules reporting_profile) ''Forces'' []) =
    [Some ''Reporting mensuel en place'']"
    by (simp add: classify_def observations_def rule_texts_def spec_rules_def
        reporting_profile_def default_profile_def dict_get_def observation_of_def)
  from a b e show False by simp
qed

text \<open>
  Claim C2.  For every well-formed profile and its classification, the rules of
  \<^verbatim>\<open>detect_needs\<close> give, before the deduplication, what the rule table of section 4.2
  gives when it is run from top to bottom: one need for each row whose condition holds,
  in the order of the rows, with the display name of the department of the row, the
  labels of its priority and deadline, its impact, and its description and rationale.
  The lookups of the department keys succeed, so the result is a list, as long as the
  list of the rows that apply.
\<close>

theorem detect_needs_rules_rule_table:
  assumes "well_formed p"
  shows "detect_needs_rules p (swot_from_profile p) =
      derive need_rule_table p (swot_from_profile p) \<and>
    (\<exists>g. derive need_rule_table p (swot_from_profile p) = Some g \<and>
      length g = length (filter (\<lambda>r. applies r p (swot_from_profile p)) need_rule_table))"
proof
  show "detect_needs_rules p (swot_from_profile p) =
      derive need_rule_table p (swot_from_profile p)"
    using assms by (simp add: detect_needs_rules_table derive_table_src)
  obtain g where g: "derive need_rule_table p (swot_from_profile p) = Some g"
    "map besoin g =
      map description (filter (\<lambda>r. applies r p (swot_from_profile p)) need_rule_table)"
    using derive_Some [OF need_rule_table_valid] by blast
  from g(2) have "length (map besoin g) =
    length (map description (filter (\<lambda>r. applies r p (swot_from_profile p)) need_rule_table))"
    by simp
  with g(1) show "\<exists>g. derive need_rule_table p (swot_from_profile p) = Some g \<and>
      length g = length (filter (\<lambda>r. applies r p (swot_from_profile p)) need_rule_table)"
    by simp
qed

theorem detect_needs_rules_rule_table_witness:
  "well_formed (default_profile\<lparr>marge := ''Faible''\<rparr>) \<and>
   detect_needs_rules (default_profile\<lparr>marge := ''Faible''\<rparr>)
     (swot_from_profile (default_profile\<lparr>marge := ''Faible''\<rparr>)) =
   Some
    [\<lparr>besoin = ''Mise en place de tableaux de bord mensuels'',
      service = (''P'' @ o_circ @ ''le Gestion / Contr'' @ o_circ @ ''le de gestion''), priorite = ''Haute'',
      echeance = (''Imm'' @ e_acute @ ''diat ('' @ le_sign @ '' 3 mois)''), impact = 4,
      justification = ''Absence de pilotage mensuel''\<rparr>,
     \<lparr>besoin = (E_acute @ ''tude prix de revient & politique de pricing''),
      service = (''P'' @ o_circ @ ''le Conseil '' @ E_acute @ ''co & Strat'' @ e_acute @ ''gie''), priorite = ''Haute'',
      echeance = (''Imm'' @ e_acute @ ''diat ('' @ le_sign @ '' 3 mois)''), impact = 5,
      justification = ''Marge insuffisante''\<rparr>,
     \<lparr>besoin = (''Diagnostic strat'' @ e_acute @ ''gique (march'' @ e_acute @ ''/offre/organisation)''),
      service = (''P'' @ o_circ @ ''le Conseil '' @ E_acute @ ''co & Strat'' @ e_acute @ ''gie''), priorite = ''Moyenne'',
      echeance = ''6-12 mois'', impact = 4,
      justification = ''Performance perfectible''\<rparr>]"
proof -
  let ?q = "default_profile\<lparr>marge := ''Faible''\<rparr>"
  have w: "well_formed ?q"
    by (simp add: well_formed_def default_profile_def SECTEURS_def TAILLE_def DIGITAL_def
        IMPACT_ENV_def EXPO_INTERNATIONAL_def DEPENDANCE_CLIENT_def CROISSANCE_def MARGE_def
        HORIZON_RETRAITE_def)
  have "detect_needs_rules ?q (swot_from_profile ?q) =
    derive need_rule_table ?q (swot_from_profile ?q)"
    using detect_needs_rules_rule_table [OF w] by simp
  moreover have "derive need_rule_table ?q (swot_from_profile ?q) = Some
    [\<lparr>besoin = ''Mise en place de tableaux de bord mensuels'',
      service = (''P'' @ o_circ @ ''le Gestion / Contr'' @ o_circ @ ''le de gestion''), priorite = ''Haute'',
      echeance = (''Imm'' @ e_acute @ ''diat ('' @ le_sign @ '' 3 mois)''), impact = 4,
      justification = ''Absence de pilotage mensuel''\<rparr>,
     \<lparr>besoin = (E_acute @ ''tude prix de revient & politique de pricing''),
      service = (''P'' @ o_circ @ ''le Conseil '' @ E_acute @ ''co & Strat'' @ e_acute @ ''gie''), priorite = ''Haute'',
      echeance = (''Imm'' @ e_acute @ ''diat ('' @ le_sign @ '' 3 mois)''), impact = 5,
      justification = ''Marge insuffisante''\<rparr>,
     \<lparr>besoin = (''Diagnostic strat'' @ e_acute @ ''gique (march'' @ e_acute @ ''/offre/organisation)''),
      service = (''P'' @ o_circ @ ''le Conseil '' @ E_acute @ ''co & Strat'' @ e_acute @ ''gie''), priorite = ''Moyenne'',
      echeance = ''6-12 mois'', impact = 4,
      justification = ''Performance perfectible''\<rparr>]"
    by (simp add: derive_def need_rule_table_def need_of_def SERVICES_def present_def
        dict_get_def swot_from_profile_def Let_def default_profile_def weakness_def
        threat_def opportunity_def)
  ultimately show ?thesis using w by simp
qed


text \<open>
  Claim C3.  The deduplication of \<^verbatim>\<open>detect_needs\<close> keeps, of the needs that share a
  (description, department) pair, the first one only, and keeps the needs in the order
  in which they were generated: on every list the loop of the source returns the first
  occurrences, which form a subsequence of the list with pairwise distinct pairs.  For
  every profile the rules return a list on the classification of the profile, and
  \<^verbatim>\<open>detect_needs\<close> returns its first occurrences.
\<close>

theorem detect_needs_first_occurrences:
  "deduplicate xs [] {} = first_occurrences xs \<and>
   distinct (map need_key (first_occurrences xs)) \<and>
   subseq (first_occurrences xs) xs \<and>
   (\<exists>g. detect_needs_rules p (swot_from_profile p) = Some g \<and>
      detect_needs p (swot_from_profile p) = Some (first_occurrences g))"
proof -
  have d: "deduplicate ys [] {} = first_occurrences ys" for ys
    by (rule deduplicate_first_occurrences)
  have "distinct (map need_key (deduplicate xs [] {}))"
    by (rule deduplicate_distinct)
  then have "distinct (map need_key (first_occurrences xs))"
    by (simp add: d)
  moreover obtain g where g: "detect_needs_rules p (swot_from_profile p) = Some g"
    using detect_needs_rules_Some [of p] by blast
  then have "detect_needs p (swot_from_profile p) = Some (first_occurrences g)"
    by (simp add: detect_needs_def d)
  ultimately show ?thesis
    using g d first_occurrences_subseq by blast
qed

theorem detect_needs_first_occurrences_witness:
  "deduplicate
    [\<lparr>besoin = ''A'', service = ''S'', priorite = ''Haute'', echeance = ''6-12 mois'',
      impact = 3, justification = ''first''\<rparr>,
     \<lparr>besoin = ''B'', service = ''S'', priorite = ''Haute'', echeance = ''6-12 mois'',
      impact = 3, justification = ''second''\<rparr>,
     \<lparr>besoin = ''A'', service = ''S'', priorite = ''Basse'', echeance = ''> 12 mois'',
      impact = 1, justification = ''third''\<rparr>] [] {} =
    [\<lparr>besoin = ''A'', service = ''S'', priorite = ''Haute'', echeance = ''6-12 mois'',
      impact = 3, justification = ''first''\<rparr>,
     \<lparr>besoin = ''B'', service = ''S'', priorite = ''Haute'', echeance = ''6-12 mois'',
      impact = 3, justification = ''second''\<rparr>]"
  using detect_needs_first_occurrences [of
    "[\<lparr>besoin = ''A'', service = ''S'', priorite = ''Haute'', echeance = ''6-12 mois'',
      impact = 3, justification = ''first''\<rparr>,
     \<lparr>besoin = ''B'', service = ''S'', priorite = ''Haute'', echeance = ''6-12 mois'',
      impact = 3, justification = ''second''\<rparr>,
     \<lparr>besoin = ''A'', service = ''S'', priorite = ''Basse'', echeance = ''> 12 mois'',
      impact = 1, justification = ''third''\<rparr>]" default_profile]
  by (simp add: need_key_def)

text \<open>
  Claim C4.  Both functions are deterministic: two calls of the classifier with the same
  profile give the same classification, observation by observation in the same order,
  and two calls of \<^verbatim>\<open>detect_needs\<close> with the same profile and the same classification
  give the same sequence of needs.  More is true: the two results are the same as soon
  as the two profiles agree on the fields that the rules read, whatever the name, the
  notes and the succession flag are.
\<close>

theorem classify_derive_deterministic:
  assumes "p = q \<or> same_rule_inputs p q"
  shows "swot_from_profile p = swot_from_profile q \<and> detect_needs p sw = detect_needs q sw"
proof -
  from assms have s: "same_rule_inputs p q"
    by (auto simp: same_rule_inputs_def)
  have c: "swot_from_profile p = swot_from_profile q"
    using s unfolding same_rule_inputs_def swot_from_profile_def
    by (elim conjE) (simp only:)
  have "detect_needs_rules p sw = detect_needs_rules q sw"
    using s unfolding same_rule_inputs_def detect_needs_rules_def
    by (elim conjE) (simp only:)
  then have "detect_needs p sw = detect_needs q sw"
    by (simp only: detect_needs_def)
  with c show ?thesis by simp
qed

theorem classify_derive_deterministic_witness:
  "swot_from_profile (default_profile\<lparr>nom := ''Autre dossier'', notes := ''vu le 3''\<rparr>) =
     swot_from_profile default_profile \<and>
   detect_needs (default_profile\<lparr>nom := ''Autre dossier'', notes := ''vu le 3''\<rparr>)
     (swot_from_profile default_profile) =
     detect_needs default_profile (swot_from_profile default_profile)"
proof -
  have "same_rule_inputs (default_profile\<lparr>nom := ''Autre dossier'', notes := ''vu le 3''\<rparr>)
    default_profile"
    by (simp add: same_rule_inputs_def)
  then show ?thesis
    using classify_derive_deterministic [of
        "default_profile\<lparr>nom := ''Autre dossier'', notes := ''vu le 3''\<rparr>" default_profile
        "swot_from_profile default_profile"]
    by simp
qed

text \<open>
  Claim C5.  The classifier and the need deriver are total: the classifier has no
  operation that can fail, and on the classification of a profile \<^verbatim>\<open>detect_needs\<close>
  returns a list of needs.  This holds for every profile, so for every well-formed one.
  The lookup of \<^verbatim>\<open>add\<close> fails exactly on a key that the table of services lacks, and
  every row of the rule table has a key of the table of services.
\<close>

theorem classify_derive_total:
  "(\<exists>s ns. swot_from_profile p = s \<and> detect_needs p s = Some ns) \<and>
   list_all (\<lambda>r. dept r \<in> set (map fst SERVICES)) need_rule_table \<and>
   (add needs b k pr e i j \<noteq> None) = (k \<in> set (map fst SERVICES))"
proof -
  obtain g where "detect_needs_rules p (swot_from_profile p) = Some g"
    using detect_needs_rules_Some [of p] by blast
  then have "detect_needs p (swot_from_profile p) = Some g"
    by (rule detect_needs_eq_rules)
  moreover have "(add needs b k pr e i j \<noteq> None) = (k \<in> set (map fst SERVICES))"
    using map_of_eq_None_iff [of SERVICES k]
    by (cases "map_of SERVICES k") (auto simp: add_def)
  ultimately show ?thesis
    using need_rule_table_keys by blast
qed

theorem classify_derive_total_witness:
  "detect_needs scenario2 (swot_from_profile scenario2) \<noteq> None \<and>
   add [] ''b'' ''fiscal'' ''Haute'' ''6-12 mois'' 3 ''j'' \<noteq> None \<and>
   add [] ''b'' ''juridique'' ''Haute'' ''6-12 mois'' 3 ''j'' = None"
  using classify_derive_total [of scenario2 "[]" "''b''" "''fiscal''" "''Haute''"
      "''6-12 mois''" 3 "''j''"]
    classify_derive_total [of scenario2 "[]" "''b''" "''juridique''" "''Haute''"
      "''6-12 mois''" 3 "''j''"]
  by (auto simp: SERVICES_def)

text \<open>
  Claim C6.  For every profile, every need that \<^verbatim>\<open>detect_needs\<close> returns has one of the
  display names of the table of services as its department, one of the three priorities,
  one of the three deadline buckets, and an impact from 1 to 5.
\<close>

theorem detect_needs_valid:
  "\<exists>ns. detect_needs p (swot_from_profile p) = Some ns \<and> list_all valid_need ns"
proof -
  obtain g where g: "detect_needs_rules p (swot_from_profile p) = Some g"
    "list_all valid_need g"
    using detect_needs_rules_Some [of p] by blast
  from g(1) have "detect_needs p (swot_from_profile p) = Some g"
    by (rule detect_needs_eq_rules)
  with g(2) show ?thesis by blast
qed

theorem detect_needs_valid_witness:
  "\<exists>ns. detect_needs scenario1 (swot_from_profile scenario1) = Some ns \<and>
    list_all valid_need ns"
  using detect_needs_valid [of scenario1] .

text \<open>
  Claim C7.  Scenario 1: the default profile with digital maturity "Pas informatique",
  no monthly reporting, margin "Faible" and a strained cash flow.  Its weaknesses are
  exactly the four observations (digital, reporting, margin, cash), in this order.  The
  needs generated before the deduplication start with the digitalisation plan, the
  monthly dashboards, the pricing study and the cash management, in this order, the last
  two with priority "Haute", the immediate deadline and impact 5; the two needs that
  follow come from the rules on banks and on strategy.  The deduplication removes
  nothing.
\<close>

theorem scenario1_outcome:
  "swot_from_profile scenario1 ''Faiblesses'' = Some
    [weakness (''Maturit'' @ e_acute @ '' digitale faible (risque d'erreurs/co'' @ u_circ @ ''ts)''),
     weakness (''Absence de reporting/indicateurs r'' @ e_acute @ ''guliers''),
     weakness (''Marge insuffisante / prix de revient non ma'' @ i_circ @ ''tris'' @ e_acute),
     weakness (''Tr'' @ e_acute @ ''sorerie tendue / pas de pr'' @ e_acute @ ''visionnel'')] \<and>
   detect_needs_rules scenario1 (swot_from_profile scenario1) = Some
    [\<lparr>besoin = ''Cartographie & plan de digitalisation'',
      service = (''P'' @ o_circ @ ''le Digitalisation''), priorite = ''Moyenne'',
      echeance = ''6-12 mois'', impact = 3,
      justification = (''Digitalisation faible d'' @ e_acute @ ''tect'' @ e_acute @ ''e'')\<rparr>,
     \<lparr>besoin = ''Mise en place de tableaux de bord mensuels'',
      service = (''P'' @ o_circ @ ''le Gestion / Contr'' @ o_circ @ ''le de gestion''), priorite = ''Haute'',
      echeance = (''Imm'' @ e_acute @ ''diat ('' @ le_sign @ '' 3 mois)''), impact = 4,
      justification = ''Absence de pilotage mensuel''\<rparr>,
     \<lparr>besoin = (E_acute @ ''tude prix de revient & politique de pricing''),
      service = (''P'' @ o_circ @ ''le Conseil '' @ E_acute @ ''co & Strat'' @ e_acute @ ''gie''), priorite = ''Haute'',
      echeance = (''Imm'' @ e_acute @ ''diat ('' @ le_sign @ '' 3 mois)''), impact = 5,
      justification = ''Marge insuffisante''\<rparr>,
     \<lparr>besoin = (''Pr'' @ e_acute @ ''visionnel & cash management''),
      service = (''P'' @ o_circ @ ''le Gestion / Contr'' @ o_circ @ ''le de gestion''), priorite = ''Haute'',
      echeance = (''Imm'' @ e_acute @ ''diat ('' @ le_sign @ '' 3 mois)''), impact = 5,
      justification = (''Tension de tr'' @ e_acute @ ''sorerie'')\<rparr>,
     \<lparr>besoin = ''Centralisation banques & rapprochements automatiques'',
      service = (''P'' @ o_circ @ ''le Digitalisation''), priorite = ''Moyenne'',
      echeance = ''6-12 mois'', impact = 3,
      justification = (''Multiples banques sans process outill'' @ e_acute)\<rparr>,
     \<lparr>besoin = (''Diagnostic strat'' @ e_acute @ ''gique (march'' @ e_acute @ ''/offre/organisation)''),
      service = (''P'' @ o_circ @ ''le Conseil '' @ E_acute @ ''co & Strat'' @ e_acute @ ''gie''), priorite = ''Moyenne'',
      echeance = ''6-12 mois'', impact = 4,
      justification = ''Performance perfectible''\<rparr>] \<and>
   detect_needs scenario1 (swot_from_profile scenario1) =
   detect_needs_rules scenario1 (swot_from_profile scenario1)"
proof -
  have s: "swot_from_profile scenario1 =
    [''Forces'' \<mapsto> [],
     ''Faiblesses'' \<mapsto>
       [weakness (''Maturit'' @ e_acute @ '' digitale faible (risque d'erreurs/co'' @ u_circ @ ''ts)''),
        weakness (''Absence de reporting/indicateurs r'' @ e_acute @ ''guliers''),
        weakness (''Marge insuffisante / prix de revient non ma'' @ i_circ @ ''tris'' @ e_acute),
        weakness (''Tr'' @ e_acute @ ''sorerie tendue / pas de pr'' @ e_acute @ ''visionnel'')],
     (''Opportunit'' @ e_acute @ ''s'') \<mapsto> [], ''Menaces'' \<mapsto> []]"
    by (simp add: swot_from_profile_def Let_def scenario1_def default_profile_def)
  have r: "detect_needs_rules scenario1 (swot_from_profile scenario1) = Some
    [\<lparr>besoin = ''Cartographie & plan de digitalisation'',
      service = (''P'' @ o_circ @ ''le Digitalisation''), priorite = ''Moyenne'',
      echeance = ''6-12 mois'', impact = 3,
      justification = (''Digitalisation faible d'' @ e_acute @ ''tect'' @ e_acute @ ''e'')\<rparr>,
     \<lparr>besoin = ''Mise en place de tableaux de bord mensuels'',
      service = (''P'' @ o_circ @ ''le Gestion / Contr'' @ o_circ @ ''le de gestion''), priorite = ''Haute'',
      echeance = (''Imm'' @ e_acute @ ''diat ('' @ le_sign @ '' 3 mois)''), impact = 4,
      justification = ''Absence de pilotage mensuel''\<rparr>,
     \<lparr>besoin = (E_acute @ ''tude prix de revient & politique de pricing''),
      service = (''P'' @ o_circ @ ''le Conseil '' @ E_acute @ ''co & Strat'' @ e_acute @ ''gie''), priorite = ''Haute'',
      echeance = (''Imm'' @ e_acute @ ''diat ('' @ le_sign @ '' 3 mois)''), impact = 5,
      justification = ''Marge insuffisante''\<rparr>,
     \<lparr>besoin = (''Pr'' @ e_acute @ ''visionnel & cash management''),
      service = (''P'' @ o_circ @ ''le Gestion / Contr'' @ o_circ @ ''le de gestion''), priorite = ''Haute'',
      echeance = (''Imm'' @ e_acute @ ''diat ('' @ le_sign @ '' 3 mois)''), impact = 5,
      justification = (''Tension de tr'' @ e_acute @ ''sorerie'')\<rparr>,
     \<lparr>besoin = ''Centralisation banques & rapprochements automatiques'',
      service = (''P'' @ o_circ @ ''le Digitalisation''), priorite = ''Moyenne'',
      echeance = ''6-12 mois'', impact = 3,
      justification = (''Multiples banques sans process outill'' @ e_acute)\<rparr>,
     \<lparr>besoin = (''Diagnostic strat'' @ e_acute @ ''gique (march'' @ e_acute @ ''/offre/organisation)''),
      service = (''P'' @ o_circ @ ''le Conseil '' @ E_acute @ ''co & Strat'' @ e_acute @ ''gie''), priorite = ''Moyenne'',
      echeance = ''6-12 mois'', impact = 4,
      justification = ''Performance perfectible''\<rparr>]"
    unfolding s
    by (simp add: detect_needs_rules_def textes_def dict_get_def weakness_def add_def
        SERVICES_def scenario1_def default_profile_def)
  have d: "detect_needs scenario1 (swot_from_profile scenario1) =
    detect_needs_rules scenario1 (swot_from_profile scenario1)"
    unfolding detect_needs_def r
    by (simp add: deduplicate_Cons need_key_def)
  from s r d show ?thesis by simp
qed

text \<open>
  Claim C8.  Scenario 2: the default profile with size band "50-249" and no structured
  HR.  Its threats hold the observation on reinforced social obligations.  Its needs
  hold exactly one need of the social department, the social audit, with priority
  "Haute", the immediate deadline and impact 4.
\<close>

theorem scenario2_outcome:
  "swot_from_profile scenario2 ''Menaces'' = Some
    [threat (''Obligations sociales renforc'' @ e_acute @ ''es sans structuration RH'')] \<and>
   detect_needs scenario2 (swot_from_profile scenario2) = Some
    [\<lparr>besoin = ''Mise en place de tableaux de bord mensuels'',
      service = (''P'' @ o_circ @ ''le Gestion / Contr'' @ o_circ @ ''le de gestion''), priorite = ''Haute'',
      echeance = (''Imm'' @ e_acute @ ''diat ('' @ le_sign @ '' 3 mois)''), impact = 4,
      justification = ''Absence de pilotage mensuel''\<rparr>,
     \<lparr>besoin = (''Audit social & mise en conformit'' @ e_acute @ '' (CSE, DUERP...)''),
      service = ''Service Paie & RH'', priorite = ''Haute'',
      echeance = (''Imm'' @ e_acute @ ''diat ('' @ le_sign @ '' 3 mois)''), impact = 4,
      justification = (''Obligations sociales renforc'' @ e_acute @ ''es'')\<rparr>,
     \<lparr>besoin = (''Diagnostic strat'' @ e_acute @ ''gique (march'' @ e_acute @ ''/offre/organisation)''),
      service = (''P'' @ o_circ @ ''le Conseil '' @ E_acute @ ''co & Strat'' @ e_acute @ ''gie''), priorite = ''Moyenne'',
      echeance = ''6-12 mois'', impact = 4,
      justification = ''Performance perfectible''\<rparr>] \<and>
   map_option (filter (\<lambda>n. map_of SERVICES ''social'' = Some (service n)))
     (detect_needs scenario2 (swot_from_profile scenario2)) = Some
    [\<lparr>besoin = (''Audit social & mise en conformit'' @ e_acute @ '' (CSE, DUERP...)''),
      service = ''Service Paie & RH'', priorite = ''Haute'',
      echeance = (''Imm'' @ e_acute @ ''diat ('' @ le_sign @ '' 3 mois)''), impact = 4,
      justification = (''Obligations sociales renforc'' @ e_acute @ ''es'')\<rparr>]"
proof -
  have s: "swot_from_profile scenario2 =
    [''Forces'' \<mapsto> [],
     ''Faiblesses'' \<mapsto> [weakness (''Absence de reporting/indicateurs r'' @ e_acute @ ''guliers'')],
     (''Opportunit'' @ e_acute @ ''s'') \<mapsto> [],
     ''Menaces'' \<mapsto> [threat (''Obligations sociales renforc'' @ e_acute @ ''es sans structuration RH'')]]"
    by (simp add: swot_from_profile_def Let_def scenario2_def default_profile_def)
  have r: "detect_needs_rules scenario2 (swot_from_profile scenario2) = Some
    [\<lparr>besoin = ''Mise en place de tableaux de bord mensuels'',
      service = (''P'' @ o_circ @ ''le Gestion / Contr'' @ o_circ @ ''le de gestion''), priorite = ''Haute'',
      echeance = (''Imm'' @ e_acute @ ''diat ('' @ le_sign @ '' 3 mois)''), impact = 4,
      justification = ''Absence de pilotage mensuel''\<rparr>,
     \<lparr>besoin = (''Audit social & mise en conformit'' @ e_acute @ '' (CSE, DUERP...)''),
      service = ''Service Paie & RH'', priorite = ''Haute'',
      echeance = (''Imm'' @ e_acute @ ''diat ('' @ le_sign @ '' 3 mois)''), impact = 4,
      justification = (''Obligations sociales renforc'' @ e_acute @ ''es'')\<rparr>,
     \<lparr>besoin = (''Diagnostic strat'' @ e_acute @ ''gique (march'' @ e_acute @ ''/offre/organisation)''),
      service = (''P'' @ o_circ @ ''le Conseil '' @ E_acute @ ''co & Strat'' @ e_acute @ ''gie''), priorite = ''Moyenne'',
      echeance = ''6-12 mois'', impact = 4,
      justification = ''Performance perfectible''\<rparr>]"
    unfolding s
    by (simp add: detect_needs_rules_def textes_def dict_get_def weakness_def threat_def
        add_def SERVICES_def scenario2_def default_profile_def)
  have d: "detect_needs scenario2 (swot_from_profile scenario2) =
    detect_needs_rules scenario2 (swot_from_profile scenario2)"
    unfolding detect_needs_def r
    by (simp add: deduplicate_Cons need_key_def)
  have f: "map_of SERVICES ''social'' = Some ''Service Paie & RH''"
    by (simp add: SERVICES_def)
  show ?thesis
    unfolding d r f
    by (simp add: s)
qed

text \<open>
  Claim C9.  The deduplication is idempotent: for every list of needs, running the
  loop of the source (from the empty \<^verbatim>\<open>unique\<close> and \<^verbatim>\<open>seen\<close>) on its own result gives
  that result again.
\<close>

theorem deduplicate_idempotent:
  "deduplicate (deduplicate xs [] {}) [] {} = deduplicate xs [] {}"
  by (rule deduplicate_id) (simp_all add: deduplicate_distinct)

theorem deduplicate_idempotent_witness:
  "deduplicate (deduplicate
    [\<lparr>besoin = ''A'', service = ''S'', priorite = ''Haute'', echeance = ''6-12 mois'',
      impact = 3, justification = ''first''\<rparr>,
     \<lparr>besoin = ''A'', service = ''S'', priorite = ''Basse'', echeance = ''> 12 mois'',
      impact = 1, justification = ''second''\<rparr>] [] {}) [] {} =
    [\<lparr>besoin = ''A'', service = ''S'', priorite = ''Haute'', echeance = ''6-12 mois'',
      impact = 3, justification = ''first''\<rparr>]"
  using deduplicate_idempotent [of
    "[\<lparr>besoin = ''A'', service = ''S'', priorite = ''Haute'', echeance = ''6-12 mois'',
      impact = 3, justification = ''first''\<rparr>,
     \<lparr>besoin = ''A'', service = ''S'', priorite = ''Basse'', echeance = ''> 12 mois'',
      impact = 1, justification = ''second''\<rparr>]"]
  by (simp add: deduplicate_Cons need_key_def)

text \<open>
  Claim C10.  For every profile, the list that the rules generate on the classification
  of the profile has no two needs with the same (description, department) pair, so the
  deduplication returns it unchanged: \<^verbatim>\<open>detect_needs\<close> with the deduplication is
  \<^verbatim>\<open>detect_needs\<close> without it.  The descriptions of the rows of the rule table are
  pairwise distinct.
\<close>

theorem detect_needs_rules_no_duplicates:
  "(\<exists>g. detect_needs_rules p (swot_from_profile p) = Some g \<and>
      distinct (map need_key g) \<and>
      detect_needs p (swot_from_profile p) = Some g) \<and>
   distinct (map description need_rule_table)"
proof -
  obtain g where g: "detect_needs_rules p (swot_from_profile p) = Some g"
    "distinct (map need_key g)"
    using detect_needs_rules_Some [of p] by blast
  from g(1) have "detect_needs p (swot_from_profile p) = Some g"
    by (rule detect_needs_eq_rules)
  with g show ?thesis
    using need_rule_table_distinct by blast
qed

theorem detect_needs_rules_no_duplicates_witness:
  "detect_needs scenario2 (swot_from_profile scenario2) =
    detect_needs_rules scenario2 (swot_from_profile scenario2)"
  using detect_needs_rules_no_duplicates [of scenario2] by auto

end
